theory Spec2Isabelle
  imports Complex_Main
begin

section \<open>Python values\<close>

text \<open>
  The numbers of the program are floats and integers. The cells of the financial
  statements (where a missing cell is NaN) and the closing prices are floats; the
  statistics of the company information are floats or integers (the market
  capitalisation is an integer), and the program divides by the integer literal 100. A
  finite float is read as the real number it denotes and the arithmetic on finite floats is
  exact (their rounding and their overflow to infinity are not modelled); the three
  non-finite values follow the IEEE rules. Python's integers are unbounded.
\<close>

datatype pyfloat = Fin real | PInf | NInf | NaN

datatype pynum = PyInt int | PyFloat pyfloat

text \<open>A scalar is a number or Python's \<open>None\<close>, the "unavailable" marker.\<close>

type_synonym scalar = "pynum option"

text \<open>
  What \<open>DataFrame.loc[row, column]\<close> hands to \<open>get_scalar\<close>: one cell, or a
  \<open>pandas.Series\<close> when the column label selects several columns.
\<close>

datatype pyval = Scalar scalar | Series "pyfloat list"

datatype error = ZeroDivisionError | OverflowError | TypeError | KeyError | IndexError

definition bindE :: "error + 'a \<Rightarrow> ('a \<Rightarrow> error + 'b) \<Rightarrow> error + 'b" where
  "bindE m f = (case m of Inl e \<Rightarrow> Inl e | Inr v \<Rightarrow> f v)"

fun fneg :: "pyfloat \<Rightarrow> pyfloat" where
  "fneg (Fin a) = Fin (- a)"
| "fneg PInf = NInf"
| "fneg NInf = PInf"
| "fneg NaN = NaN"

fun fadd :: "pyfloat \<Rightarrow> pyfloat \<Rightarrow> pyfloat" where
  "fadd NaN _ = NaN"
| "fadd _ NaN = NaN"
| "fadd (Fin a) (Fin b) = Fin (a + b)"
| "fadd PInf NInf = NaN"
| "fadd NInf PInf = NaN"
| "fadd PInf _ = PInf"
| "fadd _ PInf = PInf"
| "fadd NInf _ = NInf"
| "fadd _ NInf = NInf"

definition fsub :: "pyfloat \<Rightarrow> pyfloat \<Rightarrow> pyfloat" where
  "fsub a b = fadd a (fneg b)"

text \<open>The quotient by a divisor other than zero.\<close>

fun fdiv :: "pyfloat \<Rightarrow> pyfloat \<Rightarrow> pyfloat" where
  "fdiv NaN _ = NaN"
| "fdiv _ NaN = NaN"
| "fdiv (Fin a) (Fin b) = Fin (a / b)"
| "fdiv (Fin a) _ = Fin 0"
| "fdiv PInf (Fin b) = (if b < 0 then NInf else PInf)"
| "fdiv NInf (Fin b) = (if b < 0 then PInf else NInf)"
| "fdiv _ _ = NaN"

text \<open>Truth value of an operand: \<open>None\<close> and zero are false, every other number is true.\<close>

fun truthy :: "scalar \<Rightarrow> bool" where
  "truthy None = False"
| "truthy (Some (PyInt i)) = (i \<noteq> 0)"
| "truthy (Some (PyFloat (Fin x))) = (x \<noteq> 0)"
| "truthy (Some (PyFloat _)) = True"

text \<open>
  The least magnitude that is too large for a float: a number of that size or more rounds
  past the largest finite double, \<open>2^1024 - 2^971\<close>.
\<close>

definition float_limit :: int where
  "float_limit = 2 ^ 1024 - 2 ^ 970"

text \<open>
  The operand of a mixed operation as a float: an integer is converted, which raises
  OverflowError ("int too large to convert to float") when it is too large.
\<close>

fun py_float :: "pynum \<Rightarrow> error + pyfloat" where
  "py_float (PyFloat x) = Inr x"
| "py_float (PyInt i) =
     (if \<bar>i\<bar> < float_limit then Inr (Fin (of_int i)) else Inl OverflowError)"

text \<open>
  \<open>a / b\<close> on scalars. \<open>None\<close> as an operand is a TypeError. Two integers are divided
  exactly: ZeroDivisionError for the divisor 0, then OverflowError ("integer division
  result too large for a float") for a quotient too large. Otherwise both operands are
  taken as floats, the left one first, and the divisor 0.0 raises ZeroDivisionError; the
  quotient of two floats raises nothing else.
\<close>

fun py_truediv :: "scalar \<Rightarrow> scalar \<Rightarrow> error + scalar" where
  "py_truediv (Some (PyInt a)) (Some (PyInt b)) =
     (if b = 0 then Inl ZeroDivisionError
      else if of_int float_limit \<le> \<bar>of_int a / (of_int b :: real)\<bar> then Inl OverflowError
      else Inr (Some (PyFloat (Fin (of_int a / of_int b)))))"
| "py_truediv (Some a) (Some b) =
     bindE (py_float a) (\<lambda>x.
     bindE (py_float b) (\<lambda>y.
     if y = Fin 0 then Inl ZeroDivisionError else Inr (Some (PyFloat (fdiv x y)))))"
| "py_truediv _ _ = Inl TypeError"

text \<open>\<open>a - b\<close> on scalars: exact on two integers, on floats otherwise.\<close>

fun py_sub :: "scalar \<Rightarrow> scalar \<Rightarrow> error + scalar" where
  "py_sub (Some (PyInt a)) (Some (PyInt b)) = Inr (Some (PyInt (a - b)))"
| "py_sub (Some a) (Some b) =
     bindE (py_float a) (\<lambda>x.
     bindE (py_float b) (\<lambda>y. Inr (Some (PyFloat (fsub x y)))))"
| "py_sub _ _ = Inl TypeError"

section \<open>SafeArithmetic\<close>

text \<open>
  \<^verbatim>\<open>
  def safe_divide(numerator, denominator):
      try:
          return numerator / denominator if numerator is not None and denominator else None
      except ZeroDivisionError:
          return None
  \<close>
  In this program the operands are scalars: the cells of the statements go through
  \<open>get_scalar\<close> first, the others are fields of the company information, a closing
  price and the literal 100. Only ZeroDivisionError is handled: any other error of the
  division leaves \<open>safe_divide\<close>.
\<close>

definition safe_divide :: "scalar \<Rightarrow> scalar \<Rightarrow> error + scalar" where
  "safe_divide numerator denominator =
     (case (if numerator \<noteq> None \<and> truthy denominator
            then py_truediv numerator denominator else Inr None) of
        Inl ZeroDivisionError \<Rightarrow> Inr None
      | r \<Rightarrow> r)"

text \<open>
  \<open>Series.sum()\<close> skips the NaN entries (pandas' default \<open>skipna=True\<close>) and is 0 on
  an empty series; \<open>Series.item()\<close> is the element of a one-element series.
\<close>

definition series_sum :: "pyfloat list \<Rightarrow> pyfloat" where
  "series_sum xs = foldl fadd (Fin 0) (filter (\<lambda>x. x \<noteq> NaN) xs)"

text \<open>
  \<^verbatim>\<open>
  def get_scalar(value):
      if isinstance(value, pd.Series):
          return value.item() if len(value) == 1 else value.sum()
      return value
  \<close>
\<close>

fun get_scalar :: "pyval \<Rightarrow> scalar" where
  "get_scalar (Series xs) = Some (PyFloat (if length xs = 1 then hd xs else series_sum xs))"
| "get_scalar (Scalar v) = v"

section \<open>The data source\<close>

text \<open>
  A financial statement is a table with named rows (the line items) and columns labelled
  by fiscal year; a row holds one cell per column. Row labels are taken to be distinct.
\<close>

record dataframe =
  columns :: "string list"
  rows :: "(string \<times> pyfloat list) list"

text \<open>
  \<open>df.loc[item, label]\<close>: a KeyError when the row is not in the index or no column has
  the label, the cell when one column has it, the series of the cells when several have.
\<close>

definition loc :: "dataframe \<Rightarrow> string \<Rightarrow> string \<Rightarrow> error + pyval" where
  "loc df item label =
     (case map_of (rows df) item of
        None \<Rightarrow> Inl KeyError
      | Some cells \<Rightarrow>
          (case map snd (filter (\<lambda>c. fst c = label) (zip (columns df) cells)) of
             [] \<Rightarrow> Inl KeyError
           | [v] \<Rightarrow> Inr (Scalar (Some (PyFloat v)))
           | vs \<Rightarrow> Inr (Series vs)))"

text \<open>
  What \<open>yf.Ticker(ticker)\<close> gives: \<open>history\<close> is the Close column of
  \<open>stock.history(start=f"{year}-01-01", end=f"{year}-12-31")\<close>, by year.
\<close>

record ticker_data =
  history :: "int \<Rightarrow> pyfloat list"
  financials :: dataframe
  balance_sheet :: dataframe
  cashflow :: dataframe
  info :: "(string \<times> scalar) list"

text \<open>\<open>info.get(key, None)\<close>\<close>

definition info_get :: "(string \<times> scalar) list \<Rightarrow> string \<Rightarrow> scalar" where
  "info_get d key = (case map_of d key of None \<Rightarrow> None | Some v \<Rightarrow> v)"

text \<open>\<open>stock_data['Close'].iloc[-1]\<close>\<close>

definition iloc_last :: "pyfloat list \<Rightarrow> error + scalar" where
  "iloc_last xs = (if xs = [] then Inl IndexError else Inr (Some (PyFloat (last xs))))"

text \<open>The decimal text of an integer, as \<open>f"{year}"\<close> writes it.\<close>

fun str_nat :: "nat \<Rightarrow> string" where
  "str_nat n =
     (if n < 10 then [''0123456789'' ! n]
      else str_nat (n div 10) @ [''0123456789'' ! (n mod 10)])"

declare str_nat.simps [simp del]

definition str_int :: "int \<Rightarrow> string" where
  "str_int i = (if i < 0 then CHR ''-'' # str_nat (nat (- i)) else str_nat (nat i))"

section \<open>Dictionaries\<close>

text \<open>
  A Python dict keeps its keys in the order of their first insertion; storing under a key
  that is present replaces the value where it stands.
\<close>

fun dict_set :: "('k \<times> 'v) list \<Rightarrow> 'k \<Rightarrow> 'v \<Rightarrow> ('k \<times> 'v) list" where
  "dict_set [] k v = [(k, v)]"
| "dict_set ((k', v') # d) k v =
     (if k' = k then (k, v) # d else (k', v') # dict_set d k v)"

definition dict_getitem :: "('k \<times> 'v) list \<Rightarrow> 'k \<Rightarrow> error + 'v" where
  "dict_getitem d k = (case map_of d k of None \<Rightarrow> Inl KeyError | Some v \<Rightarrow> Inr v)"

text \<open>Storing a sequence of items one after the other, as a dict display does.\<close>

definition dict_update :: "('k \<times> 'v) list \<Rightarrow> ('k \<times> 'v) list \<Rightarrow> ('k \<times> 'v) list" where
  "dict_update d items = foldl (\<lambda>acc kv. dict_set acc (fst kv) (snd kv)) d items"

section \<open>AnnualMetricsCalculator\<close>

text \<open>
  The guarded lookup that \<open>get_annual_metrics\<close> repeats for every line item:
  \<^verbatim>\<open>get_scalar(df.loc[item, label]) if label in df.columns else None\<close>
\<close>

definition fetch :: "dataframe \<Rightarrow> string \<Rightarrow> string \<Rightarrow> error + scalar" where
  "fetch df item label =
     (if label \<in> set (columns df)
      then bindE (loc df item label) (\<lambda>value. Inr (get_scalar value))
      else Inr None)"

text \<open>What the user interface is told, in order.\<close>

datatype ui_event =
    WriteFetching string string int
  | WarnNoData string int
  | WarnError int error
  | WarnNoRange string string

type_synonym metrics = "(string \<times> scalar) list"

text \<open>The body of the \<open>try\<close> statement of \<open>get_annual_metrics\<close> (lines 42 to 118).\<close>

definition try_block :: "ticker_data \<Rightarrow> pyfloat list \<Rightarrow> int \<Rightarrow> error + metrics" where
  "try_block stock stock_data year =
     bindE (fetch (financials stock) ''Net Income'' (str_int year)) (\<lambda>net_income.
     bindE (fetch (balance_sheet stock) ''Total Equity Gross Minority Interest'' (str_int year))
       (\<lambda>stockholders_equity.
     bindE (fetch (balance_sheet stock) ''Total Assets'' (str_int year)) (\<lambda>total_assets.
     bindE (fetch (financials stock) ''Gross Profit'' (str_int year)) (\<lambda>gross_profit.
     bindE (fetch (financials stock) ''Total Revenue'' (str_int year)) (\<lambda>revenue.
     bindE (fetch (balance_sheet stock) ''Total Liabilities Net Minority Interest''
              (str_int year)) (\<lambda>total_liabilities.
     bindE (fetch (financials stock) ''EBITDA'' (str_int year)) (\<lambda>ebitda.
     let ev_ebitda = info_get (info stock) ''enterpriseToEbitda'';
         peg_ratio = info_get (info stock) ''pegRatio''
     in
     bindE (safe_divide net_income stockholders_equity) (\<lambda>roe.
     let metrics = dict_set [] ''ROE'' roe in
     bindE (safe_divide net_income total_assets) (\<lambda>roa.
     let metrics = dict_set metrics ''ROA'' roa in
     bindE (safe_divide gross_profit revenue) (\<lambda>gpm.
     let metrics = dict_set metrics ''Gross Profit Margin'' gpm in
     bindE (safe_divide total_liabilities stockholders_equity) (\<lambda>dte.
     let metrics = dict_set metrics ''Debt-to-Equity'' dte in
     bindE (iloc_last stock_data) (\<lambda>end_of_year_price.
     let eps = info_get (info stock) ''trailingEps'' in
     bindE (safe_divide end_of_year_price eps) (\<lambda>pe.
     let metrics = dict_set metrics ''P/E Ratio'' pe;
         metrics = dict_set metrics ''EV/EBITDA'' ev_ebitda;
         market_cap = info_get (info stock) ''marketCap''
     in
     bindE (safe_divide market_cap ebitda) (\<lambda>p_ebitda.
     let metrics = dict_set metrics ''P/EBITDA'' p_ebitda in
     bindE (safe_divide eps end_of_year_price) (\<lambda>earnings_yield.
     let metrics = dict_set metrics ''Earnings Yield'' earnings_yield in
     bindE (fetch (financials stock) ''Total Revenue'' (str_int (year - 1)))
       (\<lambda>previous_revenue.
     bindE (py_sub revenue previous_revenue) (\<lambda>difference.
     bindE (safe_divide difference previous_revenue) (\<lambda>revenue_growth.
     let metrics = dict_set metrics ''Revenue Growth'' revenue_growth in
     if peg_ratio = None then
       bindE (dict_getitem metrics ''Revenue Growth'') (\<lambda>growth.
       bindE (safe_divide growth (Some (PyInt 100))) (\<lambda>earnings_growth_rate.
       bindE (dict_getitem metrics ''P/E Ratio'') (\<lambda>pe_ratio.
       bindE (safe_divide pe_ratio earnings_growth_rate) (\<lambda>peg.
       Inr (dict_set metrics ''PEG Ratio'' peg)))))
     else Inr (dict_set metrics ''PEG Ratio'' peg_ratio)))))))))))))))))))"

text \<open>
  \<open>get_annual_metrics(ticker, year)\<close>, with the data source as the parameter \<open>yf\<close>.
  The result is the list of warnings shown and the metrics, or \<open>None\<close>.
\<close>

definition get_annual_metrics ::
  "(string \<Rightarrow> ticker_data) \<Rightarrow> string \<Rightarrow> int \<Rightarrow> ui_event list \<times> metrics option" where
  "get_annual_metrics yf ticker year =
     (let stock = yf ticker;
          stock_data = history stock year
      in if stock_data = [] then ([WarnNoData ticker year], None)
         else (case try_block stock stock_data year of
                 Inl e \<Rightarrow> ([WarnError year e], None)
               | Inr metrics \<Rightarrow> ([], Some metrics)))"

section \<open>RangeComparator\<close>

datatype rowval = YearVal int | MetricVal scalar

type_synonym comparison_row = "(string \<times> rowval) list"

text \<open>\<open>{f"{ticker}_{key}": value for key, value in metrics.items()}\<close>\<close>

definition prefix_item :: "string \<Rightarrow> string \<times> scalar \<Rightarrow> string \<times> rowval" where
  "prefix_item ticker kv = (ticker @ ''_'' @ fst kv, MetricVal (snd kv))"

definition prefixed :: "string \<Rightarrow> metrics \<Rightarrow> comparison_row" where
  "prefixed ticker m = dict_update [] (map (prefix_item ticker) m)"

text \<open>
  \<^verbatim>\<open>
  combined_data = {
      "Year": year,
      **{f"{ticker1}_{key}": value for key, value in metrics1.items()},
      **{f"{ticker2}_{key}": value for key, value in metrics2.items()},
  }
  \<close>
\<close>

definition combined_data ::
  "string \<Rightarrow> string \<Rightarrow> int \<Rightarrow> metrics \<Rightarrow> metrics \<Rightarrow> comparison_row" where
  "combined_data ticker1 ticker2 year metrics1 metrics2 =
     dict_update (dict_update [(''Year'', YearVal year)] (prefixed ticker1 metrics1))
       (prefixed ticker2 metrics2)"

text \<open>The truth value of \<open>metrics1\<close> in \<open>if metrics1 and metrics2\<close>: a dict that is not empty.\<close>

fun dict_truthy :: "metrics option \<Rightarrow> bool" where
  "dict_truthy None = False"
| "dict_truthy (Some m) = (m \<noteq> [])"

text \<open>One turn of the loop over the years: the state is what was shown so far and \<open>yearly_data\<close>.\<close>

definition loop_body ::
  "(string \<Rightarrow> ticker_data) \<Rightarrow> string \<Rightarrow> string \<Rightarrow>
   ui_event list \<times> comparison_row list \<Rightarrow> int \<Rightarrow> ui_event list \<times> comparison_row list" where
  "loop_body yf ticker1 ticker2 st year =
     (let (shown1, metrics1) = get_annual_metrics yf ticker1 year;
          (shown2, metrics2) = get_annual_metrics yf ticker2 year;
          shown = fst st @ [WriteFetching ticker1 ticker2 year] @ shown1 @ shown2
      in if dict_truthy metrics1 \<and> dict_truthy metrics2
         then (case (metrics1, metrics2) of
                 (Some m1, Some m2) \<Rightarrow>
                   (shown, snd st @ [combined_data ticker1 ticker2 year m1 m2])
               | _ \<Rightarrow> (shown, snd st))
         else (shown, snd st))"

text \<open>
  \<open>compare_stocks_over_range\<close>: the years are \<open>range(start_year, end_year + 1)\<close>; the
  table is the list of the rows, or \<open>None\<close> after a warning when there is no row.
\<close>

definition compare_stocks_over_range ::
  "(string \<Rightarrow> ticker_data) \<Rightarrow> string \<Rightarrow> string \<Rightarrow> int \<Rightarrow> int \<Rightarrow>
   ui_event list \<times> comparison_row list option" where
  "compare_stocks_over_range yf ticker1 ticker2 start_year end_year =
     (let (shown, yearly_data) =
            foldl (loop_body yf ticker1 ticker2) ([], []) [start_year..end_year]
      in if yearly_data \<noteq> [] then (shown, Some yearly_data)
         else (shown @ [WarnNoRange ticker1 ticker2], None))"

section \<open>Notions the properties are stated with\<close>

text \<open>The ten labels of the metrics, in the order \<open>get_annual_metrics\<close> stores them.\<close>

definition metric_keys :: "string list" where
  "metric_keys = [''ROE'', ''ROA'', ''Gross Profit Margin'', ''Debt-to-Equity'', ''P/E Ratio'',
     ''EV/EBITDA'', ''P/EBITDA'', ''Earnings Yield'', ''Revenue Growth'', ''PEG Ratio'']"

text \<open>A scalar that a division can take as a float: \<open>None\<close>, a float, or an integer a float can hold.\<close>

fun representable :: "scalar \<Rightarrow> bool" where
  "representable None = True"
| "representable (Some (PyFloat x)) = True"
| "representable (Some (PyInt i)) = (\<bar>i\<bar> < float_limit)"

text \<open>\<open>get_annual_metrics\<close> returns metrics, not \<open>None\<close>.\<close>

definition available :: "(string \<Rightarrow> ticker_data) \<Rightarrow> string \<Rightarrow> int \<Rightarrow> bool" where
  "available yf ticker year = (snd (get_annual_metrics yf ticker year) \<noteq> None)"

text \<open>The column \<open>Year\<close> of a comparison table.\<close>

definition year_column :: "comparison_row list \<Rightarrow> rowval option list" where
  "year_column table = map (\<lambda>row. map_of row ''Year'') table"

section \<open>A data source to run the program on\<close>

text \<open>
  Statements with the fiscal years 2020 to 2023. Ticker AAA has them and a price series
  for every year; BBB has a PEG ratio in its company information as well; CCC has no
  price in 2022; the balance sheet of DDD has no column 2021; the net income of EEE for
  2021 is a missing cell (NaN); the market capitalisation of FFF is the integer
  \<open>10**400\<close>; every other ticker has no price at all.
\<close>

definition ex_financials :: dataframe where
  "ex_financials =
     \<lparr>columns = [''2023'', ''2022'', ''2021'', ''2020''],
      rows = [(''Total Revenue'', [Fin 125, Fin 100, Fin 80, Fin 64]),
              (''Gross Profit'', [Fin 50, Fin 40, Fin 32, Fin 16]),
              (''EBITDA'', [Fin 25, Fin 20, Fin 10, Fin 8]),
              (''Net Income'', [Fin 10, Fin 8, Fin 4, Fin 2])]\<rparr>"

definition ex_financials_nan :: dataframe where
  "ex_financials_nan =
     \<lparr>columns = [''2023'', ''2022'', ''2021'', ''2020''],
      rows = [(''Total Revenue'', [Fin 125, Fin 100, Fin 80, Fin 64]),
              (''Gross Profit'', [Fin 50, Fin 40, Fin 32, Fin 16]),
              (''EBITDA'', [Fin 25, Fin 20, Fin 10, Fin 8]),
              (''Net Income'', [Fin 10, Fin 8, NaN, Fin 2])]\<rparr>"

definition ex_balance :: dataframe where
  "ex_balance =
     \<lparr>columns = [''2023'', ''2022'', ''2021'', ''2020''],
      rows = [(''Total Assets'', [Fin 200, Fin 160, Fin 100, Fin 80]),
              (''Total Liabilities Net Minority Interest'', [Fin 150, Fin 120, Fin 60, Fin 40]),
              (''Total Equity Gross Minority Interest'', [Fin 50, Fin 40, Fin 40, Fin 40])]\<rparr>"

definition ex_balance_gap :: dataframe where
  "ex_balance_gap =
     \<lparr>columns = [''2023'', ''2022'', ''2020''],
      rows = [(''Total Assets'', [Fin 200, Fin 160, Fin 80]),
              (''Total Liabilities Net Minority Interest'', [Fin 150, Fin 120, Fin 40]),
              (''Total Equity Gross Minority Interest'', [Fin 50, Fin 40, Fin 40])]\<rparr>"

definition ex_info :: "(string \<times> scalar) list" where
  "ex_info = [(''marketCap'', Some (PyInt 1000)), (''trailingEps'', Some (PyFloat (Fin 4))),
              (''enterpriseToEbitda'', Some (PyFloat (Fin 12)))]"

definition ex_info_huge :: "(string \<times> scalar) list" where
  "ex_info_huge =
     [(''marketCap'', Some (PyInt (10 ^ 400))), (''trailingEps'', Some (PyFloat (Fin 4))),
      (''enterpriseToEbitda'', Some (PyFloat (Fin 12)))]"

definition ex_stock :: ticker_data where
  "ex_stock =
     \<lparr>history = (\<lambda>year. [Fin 90, Fin 120]), financials = ex_financials,
      balance_sheet = ex_balance, cashflow = \<lparr>columns = [], rows = []\<rparr>, info = ex_info\<rparr>"

definition ex_yf :: "string \<Rightarrow> ticker_data" where
  "ex_yf ticker =
     (if ticker = ''AAA'' then ex_stock
      else if ticker = ''BBB'' then ex_stock\<lparr>info := (''pegRatio'', Some (PyFloat (Fin 3))) # ex_info\<rparr>
      else if ticker = ''CCC''
        then ex_stock\<lparr>history := (\<lambda>year. if year = 2022 then [] else [Fin 90, Fin 120])\<rparr>
      else if ticker = ''DDD'' then ex_stock\<lparr>balance_sheet := ex_balance_gap\<rparr>
      else if ticker = ''EEE'' then ex_stock\<lparr>financials := ex_financials_nan\<rparr>
      else if ticker = ''FFF'' then ex_stock\<lparr>info := ex_info_huge\<rparr>
      else ex_stock\<lparr>history := (\<lambda>year. [])\<rparr>)"

section \<open>The error monad and the arithmetic\<close>

lemma bindE_Inr_iff: "bindE m f = Inr y \<longleftrightarrow> (\<exists>v. m = Inr v \<and> f v = Inr y)"
  by (cases m) (simp_all add: bindE_def)

lemma bindE_Inr [simp]: "bindE (Inr v) f = f v"
  by (simp add: bindE_def)

lemma bindE_Inl [simp]: "bindE (Inl e) f = Inl e"
  by (simp add: bindE_def)

lemma float_limit_pos: "0 < float_limit"
proof -
  have "(2::int) ^ 970 < 2 ^ 1024"
    by (rule power_strict_increasing) simp_all
  then show ?thesis
    by (simp add: float_limit_def)
qed

lemma truthy_float: "truthy (Some (PyFloat b)) \<longleftrightarrow> b \<noteq> Fin 0"
  by (cases b) simp_all

lemma safe_divide_None [simp]: "safe_divide None y = Inr None" "safe_divide x None = Inr None"
  by (simp_all add: safe_divide_def)

lemma py_float_zero: "py_float n = Inr y \<Longrightarrow> y = Fin 0 \<longleftrightarrow> \<not> truthy (Some n)"
  by (cases n) (auto simp: truthy_float split: if_splits)

text \<open>Two integers a float can hold never have a quotient too large for a float.\<close>

lemma int_quotient_small:
  assumes "\<bar>a\<bar> < float_limit" "b \<noteq> 0"
  shows "\<not> of_int float_limit \<le> \<bar>of_int a / (of_int b :: real)\<bar>"
proof -
  from assms(2) have "1 \<le> \<bar>b\<bar>"
    by simp
  then have "(1::real) \<le> of_int \<bar>b\<bar>"
    by (simp only: of_int_1_le_iff)
  then have "1 \<le> \<bar>of_int b :: real\<bar>"
    by simp
  then have "\<bar>of_int a / (of_int b :: real)\<bar> \<le> \<bar>of_int a\<bar>"
    by (simp add: abs_divide field_simps mult_le_cancel_left1)
  also have "\<dots> < of_int float_limit"
    using assms(1) by (metis of_int_abs of_int_less_iff)
  finally show ?thesis
    by simp
qed

text \<open>
  On operands that can be taken as floats \<open>safe_divide\<close> returns \<open>None\<close> for the divisor
  zero and the quotient otherwise.
\<close>

lemma safe_divide_representable:
  assumes "py_float a = Inr x" "py_float b = Inr y"
  shows "safe_divide (Some a) (Some b) =
           Inr (if y = Fin 0 then None else Some (PyFloat (fdiv x y)))"
proof (cases "y = Fin 0")
  case True
  with py_float_zero [OF assms(2)] have "\<not> truthy (Some b)"
    by simp
  with True show ?thesis
    by (simp add: safe_divide_def)
next
  case False
  with py_float_zero [OF assms(2)] have t: "truthy (Some b)"
    by simp
  have "py_truediv (Some a) (Some b) = Inr (Some (PyFloat (fdiv x y)))"
  proof (cases a)
    case (PyFloat xa)
    with assms False show ?thesis
      by (cases b) simp_all
  next
    case ia: (PyInt i)
    show ?thesis
    proof (cases b)
      case (PyFloat yb)
      with ia assms False show ?thesis
        by simp
    next
      case (PyInt j)
      with ia assms t have "\<bar>i\<bar> < float_limit" "j \<noteq> 0" "x = Fin (of_int i)" "y = Fin (of_int j)"
        by (auto split: if_splits)
      with ia PyInt int_quotient_small [of i j] show ?thesis
        by simp
    qed
  qed
  with t False show ?thesis
    by (simp add: safe_divide_def)
qed

lemma safe_divide_float:
  "safe_divide (Some (PyFloat a)) (Some (PyFloat b)) =
     Inr (if b = Fin 0 then None else Some (PyFloat (fdiv a b)))"
  by (rule safe_divide_representable) simp_all

lemma representable_py_float:
  "representable (Some n) \<Longrightarrow> \<exists>x. py_float n = Inr x"
  by (cases n) simp_all

text \<open>What \<open>safe_divide\<close> returns is \<open>None\<close> or a float.\<close>

lemma safe_divide_result:
  assumes "safe_divide x y = Inr v"
  shows "v = None \<or> (\<exists>f. v = Some (PyFloat f))"
proof (cases "x \<noteq> None \<and> truthy y")
  case False
  with assms show ?thesis
    by (auto simp: safe_divide_def)
next
  case True
  then obtain a b where "x = Some a" "y = Some b"
    by (cases x; cases y) auto
  with assms True show ?thesis
    by (cases a; cases b)
       (auto simp: safe_divide_def bindE_def split: if_splits sum.splits error.splits)
qed

lemma safe_divide_total:
  assumes "representable x" "representable y"
  shows "\<exists>v. safe_divide x y = Inr v"
proof (cases x)
  case None
  then show ?thesis by simp
next
  case sx: (Some a)
  show ?thesis
  proof (cases y)
    case None
    then show ?thesis by simp
  next
    case (Some b)
    from assms sx Some obtain p q where "py_float a = Inr p" "py_float b = Inr q"
      using representable_py_float by blast
    then show ?thesis
      unfolding sx Some by (simp add: safe_divide_representable)
  qed
qed

lemma foldl_fadd_Fin: "foldl fadd (Fin a) (map Fin rs) = Fin (a + sum_list rs)"
  by (induction rs arbitrary: a) (simp_all add: add.assoc)

lemma series_sum_Fin: "series_sum (map Fin rs) = Fin (sum_list rs)"
proof -
  have "filter (\<lambda>x. x \<noteq> NaN) (map Fin rs) = map Fin rs"
    by (induction rs) simp_all
  then show ?thesis
    by (simp add: series_sum_def foldl_fadd_Fin)
qed

section \<open>SafeArithmetic: the claims\<close>

text \<open>
  C3 says that \<open>safe_divide\<close> returns \<open>None\<close> for a \<open>None\<close> numerator and for a \<open>None\<close>
  or zero denominator, the quotient otherwise, and that it never raises. The first part holds
  (\<open>safe_divide_None\<close>, \<open>safe_divide_representable\<close>), and so does the quotient for floats and
  for integers a float can hold. But \<open>safe_divide\<close> does raise: its handler is for
  ZeroDivisionError alone, and dividing an integer too large for a float by a float raises
  OverflowError, which leaves the function although its docstring promises \<open>None\<close> when the
  division is not possible. So \<open>safe_divide(10**400, 2.0)\<close> raises OverflowError.
\<close>

theorem safe_divide_overflow:
  "safe_divide (Some (PyInt (10 ^ 400))) (Some (PyFloat (Fin 2))) = Inl OverflowError"
  by (simp add: safe_divide_def float_limit_def)

text \<open>
  C7. \<open>get_scalar\<close> returns the element of a one-element series, the sum of the elements
  of a series of numbers, and a scalar as it is: \<open>[5]\<close> gives 5, \<open>[2, 3, 4]\<close> gives 9 and
  7 gives 7. (The sum of one number is that number, so the second conjunct covers the
  series of every length; NaN entries, which are not numbers, are skipped by the sum.)
\<close>

theorem get_scalar_spec:
  "get_scalar (Series [x]) = Some (PyFloat x) \<and>
   get_scalar (Series (map Fin rs)) = Some (PyFloat (Fin (sum_list rs))) \<and>
   get_scalar (Scalar v) = v \<and>
   get_scalar (Series [Fin 5]) = Some (PyFloat (Fin 5)) \<and>
   get_scalar (Series [Fin 2, Fin 3, Fin 4]) = Some (PyFloat (Fin 9)) \<and>
   get_scalar (Scalar (Some (PyInt 7))) = Some (PyInt 7)"
proof -
  have "get_scalar (Series (map Fin rs)) = Some (PyFloat (Fin (sum_list rs)))"
  proof (cases "length rs = 1")
    case True
    then obtain r where "rs = [r]"
      by (cases rs) simp_all
    then show ?thesis by simp
  next
    case False
    then show ?thesis by (simp add: series_sum_Fin)
  qed
  moreover have "get_scalar (Series [Fin 2, Fin 3, Fin 4]) = Some (PyFloat (Fin 9))"
    by (simp add: series_sum_def)
  ultimately show ?thesis by simp
qed

text \<open>
  C9. On a series with no element \<open>get_scalar\<close> returns the number 0, not \<open>None\<close>.
\<close>

theorem get_scalar_empty:
  "get_scalar (Series []) = Some (PyFloat (Fin 0)) \<and> get_scalar (Series []) \<noteq> None"
  by (simp add: series_sum_def)

section \<open>Dictionaries: facts\<close>

lemma dict_getitem_Cons [simp]:
  "dict_getitem ((k', v') # d) k = (if k' = k then Inr v' else dict_getitem d k)"
  by (simp add: dict_getitem_def)

lemma dict_getitem_Nil [simp]: "dict_getitem [] k = Inl KeyError"
  by (simp add: dict_getitem_def)

lemma dict_update_Nil [simp]: "dict_update d [] = d"
  by (simp add: dict_update_def)

lemma dict_update_Cons [simp]:
  "dict_update d (kv # items) = dict_update (dict_set d (fst kv) (snd kv)) items"
  by (simp add: dict_update_def)

lemma map_of_dict_set: "map_of (dict_set d k v) k' = (if k' = k then Some v else map_of d k')"
  by (induction d) auto

lemma map_of_dict_update_other:
  "k \<notin> fst ` set items \<Longrightarrow> map_of (dict_update d items) k = map_of d k"
  by (induction items arbitrary: d) (auto simp: map_of_dict_set)

lemma dict_set_fresh: "k \<notin> fst ` set d \<Longrightarrow> dict_set d k v = d @ [(k, v)]"
  by (induction d) auto

lemma dict_set_mid:
  "k \<notin> fst ` set P \<Longrightarrow> dict_set (P @ (k, a) # xs) k b = P @ (k, b) # xs"
  by (induction P) auto

text \<open>Storing items under keys that are new appends them.\<close>

lemma dict_update_fresh:
  "distinct (map fst (P @ items)) \<Longrightarrow> dict_update P items = P @ items"
proof (induction items arbitrary: P)
  case Nil
  show ?case by simp
next
  case (Cons kv items)
  then have fresh: "fst kv \<notin> fst ` set P"
    by auto
  from Cons.prems have "distinct (map fst ((P @ [kv]) @ items))"
    by simp
  then have "dict_update (P @ [kv]) items = (P @ [kv]) @ items"
    by (rule Cons.IH)
  with fresh show ?case
    by (simp add: dict_set_fresh)
qed

text \<open>Storing items under the keys that are there, in their order, replaces the values.\<close>

lemma dict_update_overwrite:
  "distinct (map fst (P @ xs)) \<Longrightarrow> map fst xs = map fst ys \<Longrightarrow>
   dict_update (P @ xs) ys = P @ ys"
proof (induction ys arbitrary: P xs)
  case Nil
  then show ?case by simp
next
  case (Cons kv ys)
  then obtain a xs' where xs: "xs = (fst kv, a) # xs'" and keys: "map fst xs' = map fst ys"
    by (cases xs) auto
  have d: "distinct (map fst (P @ (fst kv, a) # xs'))"
    using Cons.prems(1) by (simp only: xs)
  then have fresh: "fst kv \<notin> fst ` set P"
    by auto
  from d have "distinct (map fst ((P @ [kv]) @ xs'))"
    by auto
  then have "dict_update ((P @ [kv]) @ xs') ys = (P @ [kv]) @ ys"
    using keys by (rule Cons.IH)
  moreover have "dict_set (P @ xs) (fst kv) (snd kv) = (P @ [kv]) @ xs'"
    using fresh xs by (simp add: dict_set_mid)
  ultimately show ?case
    by simp
qed

section \<open>The rows of the comparison: facts\<close>

lemma year_key_fresh: "''Year'' \<noteq> t @ CHR ''_'' # k"
proof
  assume e: "''Year'' = t @ CHR ''_'' # k"
  have "CHR ''_'' \<in> set (t @ CHR ''_'' # k)"
    by simp
  then have "CHR ''_'' \<in> set ''Year''"
    by (simp only: e [symmetric])
  then show False
    by simp
qed

lemma prefixed_keys: "map fst (map (prefix_item t) m) = map (\<lambda>k. t @ ''_'' @ k) (map fst m)"
  by (simp add: prefix_item_def)

lemma prefixed_distinct:
  assumes "distinct (map fst m)"
  shows "distinct (map fst (map (prefix_item t) m))"
proof -
  have "inj_on (\<lambda>k. t @ ''_'' @ k) (set (map fst m))"
    by (simp add: inj_on_def)
  with assms have "distinct (map (\<lambda>k. t @ ''_'' @ k) (map fst m))"
    by (simp only: distinct_map)
  then show ?thesis
    by (simp only: prefixed_keys)
qed

lemma prefixed_eq:
  assumes "distinct (map fst m)"
  shows "prefixed t m = map (prefix_item t) m"
proof -
  have "distinct (map fst ([] @ map (prefix_item t) m))"
    using prefixed_distinct [OF assms] by (simp only: append_Nil)
  then have "dict_update [] (map (prefix_item t) m) = [] @ map (prefix_item t) m"
    by (rule dict_update_fresh)
  then show ?thesis
    by (simp only: prefixed_def append_Nil)
qed

lemma year_not_prefixed: "''Year'' \<notin> fst ` set (map (prefix_item t) m)"
proof
  assume "''Year'' \<in> fst ` set (map (prefix_item t) m)"
  then obtain kv where "''Year'' = fst (prefix_item t kv)"
    by auto
  then show False
    by (simp add: prefix_item_def year_key_fresh)
qed

lemma combined_data_year:
  assumes "distinct (map fst m1)" "distinct (map fst m2)"
  shows "map_of (combined_data t1 t2 y m1 m2) ''Year'' = Some (YearVal y)"
proof -
  have "map_of (combined_data t1 t2 y m1 m2) ''Year'' =
        map_of (dict_update [(''Year'', YearVal y)] (map (prefix_item t1) m1)) ''Year''"
    unfolding combined_data_def prefixed_eq [OF assms(1)] prefixed_eq [OF assms(2)]
    by (rule map_of_dict_update_other) (rule year_not_prefixed)
  also have "\<dots> = map_of [(''Year'', YearVal y)] ''Year''"
    by (rule map_of_dict_update_other) (rule year_not_prefixed)
  finally show ?thesis
    by simp
qed

lemma combined_data_same_ticker:
  assumes "map fst m1 = map fst m2" "distinct (map fst m2)"
  shows "combined_data t t y m1 m2 = (''Year'', YearVal y) # map (prefix_item t) m2"
proof -
  let ?K = "(''Year'', YearVal y)"
  from assms have dm1: "distinct (map fst m1)"
    by simp
  have "distinct (map fst (map (prefix_item t) m1))"
    using dm1 by (rule prefixed_distinct)
  moreover have "fst ?K \<notin> fst ` set (map (prefix_item t) m1)"
    using year_not_prefixed [of t m1] by simp
  ultimately have d1: "distinct (map fst ([?K] @ map (prefix_item t) m1))"
    by (simp only: append_Cons append_Nil list.map distinct.simps set_map) simp
  then have "dict_update [?K] (map (prefix_item t) m1) = [?K] @ map (prefix_item t) m1"
    by (rule dict_update_fresh)
  moreover have "map fst (map (prefix_item t) m1) = map fst (map (prefix_item t) m2)"
    by (simp only: prefixed_keys assms(1))
  with d1 have "dict_update ([?K] @ map (prefix_item t) m1) (map (prefix_item t) m2) =
                 [?K] @ map (prefix_item t) m2"
    by (rule dict_update_overwrite)
  ultimately show ?thesis
    unfolding combined_data_def prefixed_eq [OF dm1] prefixed_eq [OF assms(2)]
    by simp
qed

section \<open>AnnualMetricsCalculator: facts\<close>

text \<open>A cell of a statement is a float, so the guarded lookup gives \<open>None\<close> or a float.\<close>

lemma fetch_result:
  assumes "fetch df item label = Inr v"
  shows "v = None \<or> (\<exists>f. v = Some (PyFloat f))"
  using assms
  by (auto simp: fetch_def loc_def bindE_Inr_iff split: if_splits option.splits list.splits)

lemma float_limit_big: "100 < float_limit"
  by (simp add: float_limit_def)

text \<open>What a run of the \<open>try\<close> body that does not raise has read and stored.\<close>

lemma try_block_Inr:
  assumes "try_block stock stock_data year = Inr m"
  shows "\<exists>net_income equity assets gross_profit revenue liabilities ebitda price previous
            difference roe roa gpm dte pe p_ebitda earnings_yield growth peg.
     fetch (financials stock) ''Net Income'' (str_int year) = Inr net_income \<and>
     fetch (balance_sheet stock) ''Total Equity Gross Minority Interest'' (str_int year) =
       Inr equity \<and>
     fetch (balance_sheet stock) ''Total Assets'' (str_int year) = Inr assets \<and>
     fetch (financials stock) ''Gross Profit'' (str_int year) = Inr gross_profit \<and>
     fetch (financials stock) ''Total Revenue'' (str_int year) = Inr revenue \<and>
     fetch (balance_sheet stock) ''Total Liabilities Net Minority Interest'' (str_int year) =
       Inr liabilities \<and>
     fetch (financials stock) ''EBITDA'' (str_int year) = Inr ebitda \<and>
     iloc_last stock_data = Inr price \<and>
     fetch (financials stock) ''Total Revenue'' (str_int (year - 1)) = Inr previous \<and>
     py_sub revenue previous = Inr difference \<and>
     safe_divide net_income equity = Inr roe \<and>
     safe_divide net_income assets = Inr roa \<and>
     safe_divide gross_profit revenue = Inr gpm \<and>
     safe_divide liabilities equity = Inr dte \<and>
     safe_divide price (info_get (info stock) ''trailingEps'') = Inr pe \<and>
     safe_divide (info_get (info stock) ''marketCap'') ebitda = Inr p_ebitda \<and>
     safe_divide (info_get (info stock) ''trailingEps'') price = Inr earnings_yield \<and>
     safe_divide difference previous = Inr growth \<and>
     (if info_get (info stock) ''pegRatio'' = None
      then bindE (safe_divide growth (Some (PyInt 100))) (safe_divide pe) = Inr peg
      else peg = info_get (info stock) ''pegRatio'') \<and>
     m = [(''ROE'', roe), (''ROA'', roa), (''Gross Profit Margin'', gpm),
          (''Debt-to-Equity'', dte), (''P/E Ratio'', pe),
          (''EV/EBITDA'', info_get (info stock) ''enterpriseToEbitda''),
          (''P/EBITDA'', p_ebitda), (''Earnings Yield'', earnings_yield),
          (''Revenue Growth'', growth), (''PEG Ratio'', peg)]"
  using assms
  unfolding try_block_def Let_def
  by (auto simp: bindE_Inr_iff split: if_splits)

lemma get_annual_metrics_Some:
  assumes "get_annual_metrics yf ticker year = (shown, Some m)"
  shows "shown = [] \<and> history (yf ticker) year \<noteq> [] \<and>
         try_block (yf ticker) (history (yf ticker) year) year = Inr m"
  using assms
  by (auto simp: get_annual_metrics_def Let_def split: if_splits sum.splits)

lemma get_annual_metrics_keys:
  assumes "get_annual_metrics yf ticker year = (shown, Some m)"
  shows "map fst m = metric_keys"
proof -
  from assms have "try_block (yf ticker) (history (yf ticker) year) year = Inr m"
    by (simp add: get_annual_metrics_Some)
  from try_block_Inr [OF this] show ?thesis
    by (auto simp: metric_keys_def)
qed

lemma metric_keys_distinct: "distinct metric_keys"
  by (simp add: metric_keys_def)

lemma py_sub_None: "py_sub revenue None = Inl TypeError"
  by (cases revenue) simp_all

text \<open>Without the column of the year before, the subtraction has \<open>None\<close> as an operand.\<close>

lemma try_block_prior_absent:
  assumes "str_int (year - 1) \<notin> set (columns (financials stock))"
  shows "try_block stock stock_data year \<noteq> Inr m"
proof
  assume "try_block stock stock_data year = Inr m"
  from try_block_Inr [OF this] obtain revenue previous difference where
    "fetch (financials stock) ''Total Revenue'' (str_int (year - 1)) = Inr previous"
    "py_sub revenue previous = Inr difference"
    by blast
  with assms show False
    by (simp add: fetch_def py_sub_None)
qed

section \<open>AnnualMetricsCalculator: the claims\<close>

text \<open>
  C2 says that without the income statement's column for \<open>year - 1\<close> only Revenue Growth
  is unavailable and the other metrics are still computed. The program does not do that:
  \<open>previous_revenue\<close> is \<open>None\<close> then, as the guarded lookup intends, but
  \<open>revenue - previous_revenue\<close> is evaluated before \<open>safe_divide\<close> sees it and raises a
  TypeError, which the \<open>except\<close> clause turns into \<open>None\<close> for the whole year. So for every
  ticker and year whose income statement lacks the column of the year before,
  \<open>get_annual_metrics\<close> returns \<open>None\<close>.
\<close>

theorem prior_year_absent_aborts:
  assumes "str_int (year - 1) \<notin> set (columns (financials (yf ticker)))"
  shows "snd (get_annual_metrics yf ticker year) = None"
proof (cases "get_annual_metrics yf ticker year")
  case (Pair shown r)
  show ?thesis
  proof (cases r)
    case None
    with Pair show ?thesis by simp
  next
    case (Some m)
    with Pair have "try_block (yf ticker) (history (yf ticker) year) year = Inr m"
      by (simp add: get_annual_metrics_Some)
    with try_block_prior_absent [OF assms] show ?thesis
      by simp
  qed
qed

text \<open>Evaluating the program on the data source of the examples.\<close>

lemmas ex_defs = ex_yf_def ex_stock_def ex_financials_def ex_balance_def ex_info_def
  ex_balance_gap_def ex_financials_nan_def ex_info_huge_def

lemmas eval_defs = get_annual_metrics_def try_block_def fetch_def loc_def info_get_def
  iloc_last_def str_int_def str_nat.simps safe_divide_def float_limit_def fsub_def

text \<open>
  Ticker AAA in 2020: the statements start in 2020, so there is no column 2019, and the year
  has no metrics at all.
\<close>

theorem prior_year_absent_aborts_witness:
  "str_int (2020 - 1) \<notin> set (columns (financials (ex_yf ''AAA''))) \<and>
   snd (get_annual_metrics ex_yf ''AAA'' 2020) = None"
proof -
  have h: "str_int (2020 - 1) \<notin> set (columns (financials (ex_yf ''AAA'')))"
    by (simp add: ex_defs str_int_def str_nat.simps)
  from h prior_year_absent_aborts [of 2020 ex_yf "''AAA''", OF h] show ?thesis
    by (rule conjI)
qed

text \<open>The warning shown there is the one of the \<open>except\<close> clause, with the TypeError.\<close>

lemma ex_AAA_2020:
  "get_annual_metrics ex_yf ''AAA'' 2020 = ([WarnError 2020 TypeError], None)"
  by (simp add: ex_defs eval_defs)

text \<open>
  The overflow of C3 inside the program: the market capitalisation of FFF is too large for a
  float, its division by the EBITDA raises OverflowError out of \<open>safe_divide\<close>, and the year
  has no metrics.
\<close>

lemma ex_FFF_2021:
  "get_annual_metrics ex_yf ''FFF'' 2021 = ([WarnError 2021 OverflowError], None)"
  by (simp add: ex_defs eval_defs)

text \<open>
  C1, as amended. The three balance-sheet items are read under the same test, whether the
  year is a column of the balance sheet. When it is not, and the income statement has the line
  items for the year and the revenue of the year before, \<open>get_annual_metrics\<close> returns
  metrics without a warning, in which ROE, Debt-to-Equity and also ROA are \<open>None\<close> (Total
  Assets is a balance-sheet item too), while Gross Profit Margin and P/E Ratio are the
  quotients (the revenue and the trailing EPS being numbers other than zero). The trailing
  EPS and the market capitalisation are numbers a float can hold: an integer too large for
  a float makes a division of the year raise OverflowError.
\<close>

theorem missing_balance_sheet_column:
  assumes prices: "history (yf ticker) year \<noteq> []"
    and gap: "str_int year \<notin> set (columns (balance_sheet (yf ticker)))"
    and net_income: "fetch (financials (yf ticker)) ''Net Income'' (str_int year) = Inr net_income"
    and gross_profit:
      "fetch (financials (yf ticker)) ''Gross Profit'' (str_int year) =
         Inr (Some (PyFloat gross_profit))"
    and revenue:
      "fetch (financials (yf ticker)) ''Total Revenue'' (str_int year) =
         Inr (Some (PyFloat revenue))"
    and ebitda: "fetch (financials (yf ticker)) ''EBITDA'' (str_int year) = Inr ebitda"
    and previous:
      "fetch (financials (yf ticker)) ''Total Revenue'' (str_int (year - 1)) =
         Inr (Some (PyFloat previous))"
    and nonzero: "revenue \<noteq> Fin 0"
    and eps: "info_get (info (yf ticker)) ''trailingEps'' = Some eps"
      "py_float eps = Inr e" "e \<noteq> Fin 0"
    and market_cap: "representable (info_get (info (yf ticker)) ''marketCap'')"
  shows "\<exists>m. get_annual_metrics yf ticker year = ([], Some m) \<and>
           dict_getitem m ''ROE'' = Inr None \<and>
           dict_getitem m ''Debt-to-Equity'' = Inr None \<and>
           dict_getitem m ''ROA'' = Inr None \<and>
           dict_getitem m ''Gross Profit Margin'' =
             Inr (Some (PyFloat (fdiv gross_profit revenue))) \<and>
           dict_getitem m ''P/E Ratio'' =
             Inr (Some (PyFloat (fdiv (last (history (yf ticker) year)) e)))"
proof -
  let ?price = "Some (PyFloat (last (history (yf ticker) year)))"
  have bs: "fetch (balance_sheet (yf ticker)) item (str_int year) = Inr None" for item
    using gap by (simp add: fetch_def)
  have gpm: "safe_divide (Some (PyFloat gross_profit)) (Some (PyFloat revenue)) =
               Inr (Some (PyFloat (fdiv gross_profit revenue)))"
    using nonzero by (simp add: safe_divide_float)
  have pe: "safe_divide ?price (Some eps) =
              Inr (Some (PyFloat (fdiv (last (history (yf ticker) year)) e)))"
    using eps(2,3) by (simp add: safe_divide_representable)
  from fetch_result [OF ebitda] have "representable ebitda"
    by auto
  with market_cap obtain p_ebitda where
    p_ebitda: "safe_divide (info_get (info (yf ticker)) ''marketCap'') ebitda = Inr p_ebitda"
    using safe_divide_total by blast
  obtain earnings_yield where ey: "safe_divide (Some eps) ?price = Inr earnings_yield"
    using eps(2) by (simp add: safe_divide_representable)
  obtain growth where growth:
    "safe_divide (Some (PyFloat (fsub revenue previous))) (Some (PyFloat previous)) = Inr growth"
    by (simp add: safe_divide_float)
  from safe_divide_result [OF growth] have "representable growth"
    by auto
  then obtain rate where rate: "safe_divide growth (Some (PyInt 100)) = Inr rate"
    using safe_divide_total [of growth "Some (PyInt 100)"] float_limit_big by auto
  from safe_divide_result [OF rate] have "representable rate"
    by auto
  then obtain peg where
    peg: "safe_divide (Some (PyFloat (fdiv (last (history (yf ticker) year)) e))) rate = Inr peg"
    using safe_divide_total [of "Some (PyFloat (fdiv (last (history (yf ticker) year)) e))" rate]
    by auto
  show ?thesis
    using prices
    by (simp add: get_annual_metrics_def try_block_def bs net_income gross_profit revenue ebitda
          previous eps(1) iloc_last_def gpm pe p_ebitda ey growth rate peg Let_def)
qed

text \<open>Ticker DDD, whose balance sheet has no column 2021, in 2021.\<close>

lemma ex_DDD_2021:
  "get_annual_metrics ex_yf ''DDD'' 2021 =
     ([], Some [(''ROE'', None), (''ROA'', None),
                (''Gross Profit Margin'', Some (PyFloat (Fin (2 / 5)))),
                (''Debt-to-Equity'', None), (''P/E Ratio'', Some (PyFloat (Fin 30))),
                (''EV/EBITDA'', Some (PyFloat (Fin 12))), (''P/EBITDA'', Some (PyFloat (Fin 100))),
                (''Earnings Yield'', Some (PyFloat (Fin (1 / 30)))),
                (''Revenue Growth'', Some (PyFloat (Fin (1 / 4)))),
                (''PEG Ratio'', Some (PyFloat (Fin 12000)))])"
  by (simp add: ex_defs eval_defs)

theorem missing_balance_sheet_column_witness:
  "\<exists>m. get_annual_metrics ex_yf ''DDD'' 2021 = ([], Some m) \<and>
       dict_getitem m ''ROE'' = Inr None \<and>
       dict_getitem m ''Debt-to-Equity'' = Inr None \<and>
       dict_getitem m ''ROA'' = Inr None \<and>
       dict_getitem m ''Gross Profit Margin'' = Inr (Some (PyFloat (fdiv (Fin 32) (Fin 80)))) \<and>
       dict_getitem m ''P/E Ratio'' =
         Inr (Some (PyFloat (fdiv (last (history (ex_yf ''DDD'') 2021)) (Fin 4))))"
  by (rule missing_balance_sheet_column [where net_income = "Some (PyFloat (Fin 4))"
        and ebitda = "Some (PyFloat (Fin 10))" and previous = "Fin 64"
        and eps = "PyFloat (Fin 4)"])
     (simp_all add: ex_defs fetch_def loc_def info_get_def str_int_def str_nat.simps
        float_limit_def)

text \<open>
  C1 as it is written fails there: the year's column is missing from the balance sheet, all
  the other data are present, and ROA is \<open>None\<close>, not a number.
\<close>

theorem missing_balance_sheet_column_counterexample:
  "str_int 2021 \<notin> set (columns (balance_sheet (ex_yf ''DDD''))) \<and>
   get_annual_metrics ex_yf ''DDD'' 2021 =
     ([], Some [(''ROE'', None), (''ROA'', None),
                (''Gross Profit Margin'', Some (PyFloat (Fin (2 / 5)))),
                (''Debt-to-Equity'', None), (''P/E Ratio'', Some (PyFloat (Fin 30))),
                (''EV/EBITDA'', Some (PyFloat (Fin 12))), (''P/EBITDA'', Some (PyFloat (Fin 100))),
                (''Earnings Yield'', Some (PyFloat (Fin (1 / 30)))),
                (''Revenue Growth'', Some (PyFloat (Fin (1 / 4)))),
                (''PEG Ratio'', Some (PyFloat (Fin 12000)))])"
proof
  show "str_int 2021 \<notin> set (columns (balance_sheet (ex_yf ''DDD'')))"
    by (simp add: ex_defs str_int_def str_nat.simps)
qed (rule ex_DDD_2021)

text \<open>
  C6. In the metrics \<open>get_annual_metrics\<close> returns, PEG Ratio is the \<open>pegRatio\<close> of the
  company information when there is one, as it is; otherwise it is
  \<open>safe_divide(P/E Ratio, safe_divide(Revenue Growth, 100))\<close>.
\<close>

theorem peg_ratio_spec:
  assumes "get_annual_metrics yf ticker year = (shown, Some m)"
  shows "\<exists>pe growth rate.
           dict_getitem m ''P/E Ratio'' = Inr pe \<and>
           dict_getitem m ''Revenue Growth'' = Inr growth \<and>
           safe_divide growth (Some (PyInt 100)) = Inr rate \<and>
           dict_getitem m ''PEG Ratio'' =
             (case info_get (info (yf ticker)) ''pegRatio'' of
                Some v \<Rightarrow> Inr (Some v)
              | None \<Rightarrow> safe_divide pe rate)"
proof -
  from assms have "try_block (yf ticker) (history (yf ticker) year) year = Inr m"
    by (simp add: get_annual_metrics_Some)
  from try_block_Inr [OF this]
  obtain previous difference roe roa gpm dte pe p_ebitda earnings_yield growth peg
    where growth: "safe_divide difference previous = Inr growth"
      and peg: "if info_get (info (yf ticker)) ''pegRatio'' = None
                then bindE (safe_divide growth (Some (PyInt 100))) (safe_divide pe) = Inr peg
                else peg = info_get (info (yf ticker)) ''pegRatio''"
      and m: "m = [(''ROE'', roe), (''ROA'', roa), (''Gross Profit Margin'', gpm),
          (''Debt-to-Equity'', dte), (''P/E Ratio'', pe),
          (''EV/EBITDA'', info_get (info (yf ticker)) ''enterpriseToEbitda''),
          (''P/EBITDA'', p_ebitda), (''Earnings Yield'', earnings_yield),
          (''Revenue Growth'', growth), (''PEG Ratio'', peg)]"
    by blast
  from safe_divide_result [OF growth] have "representable growth"
    by auto
  then obtain rate where rate: "safe_divide growth (Some (PyInt 100)) = Inr rate"
    using safe_divide_total [of growth "Some (PyInt 100)"] float_limit_big by auto
  have "dict_getitem m ''PEG Ratio'' =
          (case info_get (info (yf ticker)) ''pegRatio'' of
             Some v \<Rightarrow> Inr (Some v)
           | None \<Rightarrow> safe_divide pe rate)"
    using peg rate by (cases "info_get (info (yf ticker)) ''pegRatio''") (simp_all add: m)
  with rate show ?thesis
    by (simp add: m)
qed

text \<open>Tickers BBB (with a PEG ratio of 3 in its information) and AAA (without) in 2021.\<close>

lemma ex_BBB_2021:
  "get_annual_metrics ex_yf ''BBB'' 2021 =
     ([], Some [(''ROE'', Some (PyFloat (Fin (1 / 10)))), (''ROA'', Some (PyFloat (Fin (1 / 25)))),
                (''Gross Profit Margin'', Some (PyFloat (Fin (2 / 5)))),
                (''Debt-to-Equity'', Some (PyFloat (Fin (3 / 2)))),
                (''P/E Ratio'', Some (PyFloat (Fin 30))), (''EV/EBITDA'', Some (PyFloat (Fin 12))),
                (''P/EBITDA'', Some (PyFloat (Fin 100))),
                (''Earnings Yield'', Some (PyFloat (Fin (1 / 30)))),
                (''Revenue Growth'', Some (PyFloat (Fin (1 / 4)))),
                (''PEG Ratio'', Some (PyFloat (Fin 3)))])"
  by (simp add: ex_defs eval_defs)

lemma ex_AAA_2021:
  "get_annual_metrics ex_yf ''AAA'' 2021 =
     ([], Some [(''ROE'', Some (PyFloat (Fin (1 / 10)))), (''ROA'', Some (PyFloat (Fin (1 / 25)))),
                (''Gross Profit Margin'', Some (PyFloat (Fin (2 / 5)))),
                (''Debt-to-Equity'', Some (PyFloat (Fin (3 / 2)))),
                (''P/E Ratio'', Some (PyFloat (Fin 30))), (''EV/EBITDA'', Some (PyFloat (Fin 12))),
                (''P/EBITDA'', Some (PyFloat (Fin 100))),
                (''Earnings Yield'', Some (PyFloat (Fin (1 / 30)))),
                (''Revenue Growth'', Some (PyFloat (Fin (1 / 4)))),
                (''PEG Ratio'', Some (PyFloat (Fin 12000)))])"
  by (simp add: ex_defs eval_defs)

theorem peg_ratio_spec_witness:
  "(\<exists>m. snd (get_annual_metrics ex_yf ''BBB'' 2021) = Some m \<and>
        info_get (info (ex_yf ''BBB'')) ''pegRatio'' = Some (PyFloat (Fin 3)) \<and>
        dict_getitem m ''PEG Ratio'' = Inr (Some (PyFloat (Fin 3)))) \<and>
   (\<exists>m. snd (get_annual_metrics ex_yf ''AAA'' 2021) = Some m \<and>
        info_get (info (ex_yf ''AAA'')) ''pegRatio'' = None \<and>
        dict_getitem m ''PEG Ratio'' =
          bindE (safe_divide (Some (PyFloat (Fin (1 / 4)))) (Some (PyInt 100)))
            (safe_divide (Some (PyFloat (Fin 30)))))"
  using peg_ratio_spec [OF ex_BBB_2021] peg_ratio_spec [OF ex_AAA_2021]
  by (simp add: ex_BBB_2021 ex_AAA_2021 ex_defs info_get_def safe_divide_def float_limit_def)





section \<open>RangeComparator: facts\<close>

lemma dict_truthy_result:
  "dict_truthy (snd (get_annual_metrics yf ticker year)) = available yf ticker year"
proof (cases "get_annual_metrics yf ticker year")
  case (Pair shown r)
  show ?thesis
  proof (cases r)
    case None
    with Pair show ?thesis by (simp add: available_def)
  next
    case (Some m)
    with Pair have "map fst m = metric_keys"
      by (simp add: get_annual_metrics_keys)
    then have "m \<noteq> []"
      by (auto simp: metric_keys_def)
    with Pair Some show ?thesis by (simp add: available_def)
  qed
qed

lemma loop_body_snd:
  "snd (loop_body yf t1 t2 st year) =
     (if available yf t1 year \<and> available yf t2 year
      then snd st @ [combined_data t1 t2 year (the (snd (get_annual_metrics yf t1 year)))
                       (the (snd (get_annual_metrics yf t2 year)))]
      else snd st)"
proof -
  have "dict_truthy (snd (get_annual_metrics yf t1 year)) = available yf t1 year"
       "dict_truthy (snd (get_annual_metrics yf t2 year)) = available yf t2 year"
    by (rule dict_truthy_result)+
  then show ?thesis
    by (cases "get_annual_metrics yf t1 year"; cases "get_annual_metrics yf t2 year")
       (auto simp: loop_body_def available_def)
qed

lemma foldl_loop_body_snd:
  "snd (foldl (loop_body yf t1 t2) st years) =
     snd st @ map (\<lambda>year. combined_data t1 t2 year (the (snd (get_annual_metrics yf t1 year)))
                       (the (snd (get_annual_metrics yf t2 year))))
                (filter (\<lambda>year. available yf t1 year \<and> available yf t2 year) years)"
  by (induction years arbitrary: st) (simp_all add: loop_body_snd)

lemma compare_snd:
  "snd (compare_stocks_over_range yf t1 t2 s e) =
     (let tbl = map (\<lambda>year. combined_data t1 t2 year (the (snd (get_annual_metrics yf t1 year)))
                       (the (snd (get_annual_metrics yf t2 year))))
                (filter (\<lambda>year. available yf t1 year \<and> available yf t2 year) [s..e])
      in if tbl \<noteq> [] then Some tbl else None)"
proof -
  obtain shown tbl where f: "foldl (loop_body yf t1 t2) ([], []) [s..e] = (shown, tbl)"
    by (cases "foldl (loop_body yf t1 t2) ([], []) [s..e]")
  from foldl_loop_body_snd [of yf t1 t2 "([], [])" "[s..e]"] f
  show ?thesis
    by (simp add: compare_stocks_over_range_def Let_def)
qed

lemma compare_None_shown:
  assumes "snd (compare_stocks_over_range yf t1 t2 s e) = None"
  shows "\<exists>shown. fst (compare_stocks_over_range yf t1 t2 s e) = shown @ [WarnNoRange t1 t2]"
  using assms
  by (cases "foldl (loop_body yf t1 t2) ([], []) [s..e]")
     (auto simp: compare_stocks_over_range_def split: if_splits)

lemma available_keys:
  assumes "available yf t y"
  shows "map fst (the (snd (get_annual_metrics yf t y))) = metric_keys"
proof -
  from assms obtain shown m where "get_annual_metrics yf t y = (shown, Some m)"
    by (cases "get_annual_metrics yf t y") (auto simp: available_def)
  then show ?thesis
    by (simp add: get_annual_metrics_keys)
qed

lemma year_column_rows:
  "year_column (map (\<lambda>year. combined_data t1 t2 year (the (snd (get_annual_metrics yf t1 year)))
                       (the (snd (get_annual_metrics yf t2 year))))
                (filter (\<lambda>year. available yf t1 year \<and> available yf t2 year) years)) =
   map (\<lambda>year. Some (YearVal year))
     (filter (\<lambda>year. available yf t1 year \<and> available yf t2 year) years)"
  by (induction years)
     (simp_all add: year_column_def combined_data_year available_keys metric_keys_distinct)

lemma compare_year_column:
  "(case snd (compare_stocks_over_range yf t1 t2 s e) of
      None \<Rightarrow> filter (\<lambda>year. available yf t1 year \<and> available yf t2 year) [s..e] = []
    | Some tbl \<Rightarrow>
        year_column tbl =
          map (\<lambda>year. Some (YearVal year))
            (filter (\<lambda>year. available yf t1 year \<and> available yf t2 year) [s..e]))"
  by (simp add: compare_snd Let_def year_column_rows)

lemma list_all2_map_self: "(\<And>x. x \<in> set xs \<Longrightarrow> P (f x) x) \<Longrightarrow> list_all2 P (map f xs) xs"
  by (induction xs) simp_all

lemma compare_rows_full:
  assumes "snd (compare_stocks_over_range yf t1 t2 s e) = Some tbl"
  shows "list_all2
           (\<lambda>row year. \<exists>m1 m2. snd (get_annual_metrics yf t1 year) = Some m1 \<and>
                          snd (get_annual_metrics yf t2 year) = Some m2 \<and>
                          row = combined_data t1 t2 year m1 m2)
           tbl (filter (\<lambda>year. available yf t1 year \<and> available yf t2 year) [s..e])"
proof -
  let ?ok = "\<lambda>year. available yf t1 year \<and> available yf t2 year"
  let ?row = "\<lambda>year. combined_data t1 t2 year (the (snd (get_annual_metrics yf t1 year)))
                       (the (snd (get_annual_metrics yf t2 year)))"
  from assms have tbl: "tbl = map ?row (filter ?ok [s..e])"
    by (simp add: compare_snd Let_def split: if_splits)
  show ?thesis
    unfolding tbl
    by (rule list_all2_map_self) (auto simp: available_def)
qed

section \<open>RangeComparator: the claims\<close>

text \<open>
  C4. The table \<open>compare_stocks_over_range\<close> returns has one row for each year of
  \<open>start_year..end_year\<close> in which \<open>get_annual_metrics\<close> returns metrics for both tickers, in
  ascending order of the years and none for another year; each row is the whole
  \<open>combined_data\<close> of the year and the two sets of metrics. When there is no table, there is
  no such year. For 2021 to 2023 with both tickers available in the three years the table
  has the rows of 2021, 2022 and 2023; with the second ticker unavailable in 2022 only, it
  has the rows of 2021 and 2023.
\<close>

theorem compare_rows_spec:
  "(case snd (compare_stocks_over_range yf t1 t2 s e) of
      None \<Rightarrow> filter (\<lambda>year. available yf t1 year \<and> available yf t2 year) [s..e] = []
    | Some tbl \<Rightarrow>
        year_column tbl =
          map (\<lambda>year. Some (YearVal year))
            (filter (\<lambda>year. available yf t1 year \<and> available yf t2 year) [s..e]) \<and>
        list_all2
          (\<lambda>row year. \<exists>m1 m2. snd (get_annual_metrics yf t1 year) = Some m1 \<and>
                         snd (get_annual_metrics yf t2 year) = Some m2 \<and>
                         row = combined_data t1 t2 year m1 m2)
          tbl (filter (\<lambda>year. available yf t1 year \<and> available yf t2 year) [s..e])) \<and>
   (available yf t1 2021 \<and> available yf t1 2022 \<and> available yf t1 2023 \<and>
    available yf t2 2021 \<and> available yf t2 2022 \<and> available yf t2 2023 \<longrightarrow>
      (\<exists>tbl. snd (compare_stocks_over_range yf t1 t2 2021 2023) = Some tbl \<and>
         year_column tbl = [Some (YearVal 2021), Some (YearVal 2022), Some (YearVal 2023)])) \<and>
   (available yf t1 2021 \<and> available yf t1 2023 \<and>
    available yf t2 2021 \<and> \<not> available yf t2 2022 \<and> available yf t2 2023 \<longrightarrow>
      (\<exists>tbl. snd (compare_stocks_over_range yf t1 t2 2021 2023) = Some tbl \<and>
         year_column tbl = [Some (YearVal 2021), Some (YearVal 2023)]))"
proof (intro conjI impI)
  show "case snd (compare_stocks_over_range yf t1 t2 s e) of
      None \<Rightarrow> filter (\<lambda>year. available yf t1 year \<and> available yf t2 year) [s..e] = []
    | Some tbl \<Rightarrow>
        year_column tbl =
          map (\<lambda>year. Some (YearVal year))
            (filter (\<lambda>year. available yf t1 year \<and> available yf t2 year) [s..e]) \<and>
        list_all2
          (\<lambda>row year. \<exists>m1 m2. snd (get_annual_metrics yf t1 year) = Some m1 \<and>
                         snd (get_annual_metrics yf t2 year) = Some m2 \<and>
                         row = combined_data t1 t2 year m1 m2)
          tbl (filter (\<lambda>year. available yf t1 year \<and> available yf t2 year) [s..e])"
    using compare_year_column [of yf t1 t2 s e] compare_rows_full [of yf t1 t2 s e]
    by (cases "snd (compare_stocks_over_range yf t1 t2 s e)") simp_all
next
  assume "available yf t1 2021 \<and> available yf t1 2022 \<and> available yf t1 2023 \<and>
    available yf t2 2021 \<and> available yf t2 2022 \<and> available yf t2 2023"
  then have "filter (\<lambda>year. available yf t1 year \<and> available yf t2 year) [2021..2023] =
             [2021, 2022, 2023]"
    by (simp add: upto_rec1)
  with compare_year_column [of yf t1 t2 2021 2023]
  show "\<exists>tbl. snd (compare_stocks_over_range yf t1 t2 2021 2023) = Some tbl \<and>
         year_column tbl = [Some (YearVal 2021), Some (YearVal 2022), Some (YearVal 2023)]"
    by (cases "snd (compare_stocks_over_range yf t1 t2 2021 2023)") simp_all
next
  assume "available yf t1 2021 \<and> available yf t1 2023 \<and>
    available yf t2 2021 \<and> \<not> available yf t2 2022 \<and> available yf t2 2023"
  then have "filter (\<lambda>year. available yf t1 year \<and> available yf t2 year) [2021..2023] =
             [2021, 2023]"
    by (simp add: upto_rec1)
  with compare_year_column [of yf t1 t2 2021 2023]
  show "\<exists>tbl. snd (compare_stocks_over_range yf t1 t2 2021 2023) = Some tbl \<and>
         year_column tbl = [Some (YearVal 2021), Some (YearVal 2023)]"
    by (cases "snd (compare_stocks_over_range yf t1 t2 2021 2023)") simp_all
qed

text \<open>
  Tickers AAA and BBB have metrics in 2021, 2022 and 2023; CCC has none in 2022, for want
  of a price.
\<close>

lemma ex_available_AAA: "available ex_yf ''AAA'' 2021" "available ex_yf ''AAA'' 2022"
  "available ex_yf ''AAA'' 2023"
  by (simp_all add: available_def ex_defs eval_defs)

lemma ex_available_BBB: "available ex_yf ''BBB'' 2021" "available ex_yf ''BBB'' 2022"
  "available ex_yf ''BBB'' 2023"
  by (simp_all add: available_def ex_defs eval_defs)

lemma ex_available_CCC: "available ex_yf ''CCC'' 2021" "\<not> available ex_yf ''CCC'' 2022"
  "available ex_yf ''CCC'' 2023"
  by (simp_all add: available_def ex_defs eval_defs)

theorem compare_rows_spec_witness:
  "(\<exists>tbl. snd (compare_stocks_over_range ex_yf ''AAA'' ''BBB'' 2021 2023) = Some tbl \<and>
      year_column tbl = [Some (YearVal 2021), Some (YearVal 2022), Some (YearVal 2023)]) \<and>
   (\<exists>tbl. snd (compare_stocks_over_range ex_yf ''AAA'' ''CCC'' 2021 2023) = Some tbl \<and>
      year_column tbl = [Some (YearVal 2021), Some (YearVal 2023)])"
  using compare_rows_spec [of ex_yf "''AAA''" "''BBB''" 2021 2023]
    compare_rows_spec [of ex_yf "''AAA''" "''CCC''" 2021 2023]
  by (simp only: ex_available_AAA ex_available_BBB ex_available_CCC simp_thms)

text \<open>
  C5. \<open>compare_stocks_over_range\<close> never returns a table without a row; when no year of the
  range has metrics for both tickers it returns \<open>None\<close>, and the last thing shown is the
  warning that no data is available for the two tickers.
\<close>

theorem compare_never_empty:
  "snd (compare_stocks_over_range yf t1 t2 s e) \<noteq> Some [] \<and>
   ((\<forall>y. s \<le> y \<and> y \<le> e \<longrightarrow> \<not> (available yf t1 y \<and> available yf t2 y)) \<longrightarrow>
      snd (compare_stocks_over_range yf t1 t2 s e) = None \<and>
      (\<exists>shown. fst (compare_stocks_over_range yf t1 t2 s e) = shown @ [WarnNoRange t1 t2]))"
proof (intro conjI impI)
  show "snd (compare_stocks_over_range yf t1 t2 s e) \<noteq> Some []"
    by (simp add: compare_snd Let_def)
next
  assume none: "\<forall>y. s \<le> y \<and> y \<le> e \<longrightarrow> \<not> (available yf t1 y \<and> available yf t2 y)"
  then have "filter (\<lambda>year. available yf t1 year \<and> available yf t2 year) [s..e] = []"
    by (auto simp: filter_empty_conv)
  then show n: "snd (compare_stocks_over_range yf t1 t2 s e) = None"
    by (simp add: compare_snd)
  then show "\<exists>shown. fst (compare_stocks_over_range yf t1 t2 s e) = shown @ [WarnNoRange t1 t2]"
    by (rule compare_None_shown)
qed

text \<open>Ticker ZZZ has no price in any year.\<close>

lemma ex_ZZZ: "\<not> available ex_yf ''ZZZ'' y"
  by (simp add: available_def get_annual_metrics_def ex_yf_def ex_stock_def)

theorem compare_never_empty_witness:
  "snd (compare_stocks_over_range ex_yf ''AAA'' ''ZZZ'' 2021 2023) = None \<and>
   (\<exists>shown. fst (compare_stocks_over_range ex_yf ''AAA'' ''ZZZ'' 2021 2023) =
      shown @ [WarnNoRange ''AAA'' ''ZZZ''])"
  using compare_never_empty [of ex_yf "''AAA''" "''ZZZ''" 2021 2023]
  by (simp add: ex_ZZZ)

text \<open>
  C10. With the same ticker twice, the two sets of metrics are stored under the same ten
  prefixed keys: the merged row is the year and the ten keys with the values of the second
  set, the values of the first being replaced. So every row of the table has eleven
  entries, the year and the ticker's metrics of that year.
\<close>

theorem same_ticker_rows:
  "(map fst m1 = metric_keys \<and> map fst m2 = metric_keys \<longrightarrow>
      combined_data t t y m1 m2 = (''Year'', YearVal y) # map (prefix_item t) m2) \<and>
   (snd (compare_stocks_over_range yf t t s e) = Some tbl \<and> row \<in> set tbl \<longrightarrow>
      map fst row = ''Year'' # map (\<lambda>k. t @ ''_'' @ k) metric_keys \<and>
      length row = 11 \<and>
      (\<exists>year m. snd (get_annual_metrics yf t year) = Some m \<and>
         row = (''Year'', YearVal year) # map (prefix_item t) m))"
proof (intro conjI impI)
  assume "map fst m1 = metric_keys \<and> map fst m2 = metric_keys"
  then show "combined_data t t y m1 m2 = (''Year'', YearVal y) # map (prefix_item t) m2"
    by (simp add: combined_data_same_ticker metric_keys_distinct)
next
  assume a: "snd (compare_stocks_over_range yf t t s e) = Some tbl \<and> row \<in> set tbl"
  then have "snd (compare_stocks_over_range yf t t s e) = Some tbl"
    by simp
  then have "list_all2
           (\<lambda>row year. \<exists>m1 m2. snd (get_annual_metrics yf t year) = Some m1 \<and>
                          snd (get_annual_metrics yf t year) = Some m2 \<and>
                          row = combined_data t t year m1 m2)
           tbl (filter (\<lambda>year. available yf t year \<and> available yf t year) [s..e])"
    by (rule compare_rows_full)
  with a obtain year m where m: "snd (get_annual_metrics yf t year) = Some m"
    and row: "row = combined_data t t year m m"
    by (auto simp: list_all2_conv_all_nth in_set_conv_nth)
  from m have keys: "map fst m = metric_keys"
    by (cases "get_annual_metrics yf t year") (simp add: get_annual_metrics_keys)
  then have r: "row = (''Year'', YearVal year) # map (prefix_item t) m"
    unfolding row by (simp add: combined_data_same_ticker metric_keys_distinct)
  then show "\<exists>year m. snd (get_annual_metrics yf t year) = Some m \<and>
         row = (''Year'', YearVal year) # map (prefix_item t) m"
    using m by blast
  from r have "map fst row = ''Year'' # map fst (map (prefix_item t) m)"
    by simp
  then show k: "map fst row = ''Year'' # map (\<lambda>k. t @ ''_'' @ k) metric_keys"
    by (simp only: prefixed_keys keys)
  have "length row = length (map fst row)"
    by simp
  also have "\<dots> = 11"
    unfolding k by (simp add: metric_keys_def)
  finally show "length row = 11" .
qed

text \<open>
  Merging the metrics of AAA and of BBB (which differ in the PEG ratio) under the one
  ticker AAA keeps the PEG ratio of the second; and the table of AAA against AAA for 2021
  has one row of eleven entries.
\<close>

theorem same_ticker_rows_witness:
  "combined_data ''AAA'' ''AAA'' 2021
     (the (snd (get_annual_metrics ex_yf ''AAA'' 2021)))
     (the (snd (get_annual_metrics ex_yf ''BBB'' 2021))) =
     [(''Year'', YearVal 2021),
      (''AAA_ROE'', MetricVal (Some (PyFloat (Fin (1 / 10))))),
      (''AAA_ROA'', MetricVal (Some (PyFloat (Fin (1 / 25))))),
      (''AAA_Gross Profit Margin'', MetricVal (Some (PyFloat (Fin (2 / 5))))),
      (''AAA_Debt-to-Equity'', MetricVal (Some (PyFloat (Fin (3 / 2))))),
      (''AAA_P/E Ratio'', MetricVal (Some (PyFloat (Fin 30)))),
      (''AAA_EV/EBITDA'', MetricVal (Some (PyFloat (Fin 12)))),
      (''AAA_P/EBITDA'', MetricVal (Some (PyFloat (Fin 100)))),
      (''AAA_Earnings Yield'', MetricVal (Some (PyFloat (Fin (1 / 30))))),
      (''AAA_Revenue Growth'', MetricVal (Some (PyFloat (Fin (1 / 4))))),
      (''AAA_PEG Ratio'', MetricVal (Some (PyFloat (Fin 3))))] \<and>
   (\<exists>row. snd (compare_stocks_over_range ex_yf ''AAA'' ''AAA'' 2021 2021) = Some [row] \<and>
      length row = 11)"
proof
  let ?m1 = "the (snd (get_annual_metrics ex_yf ''AAA'' 2021))"
  let ?m2 = "the (snd (get_annual_metrics ex_yf ''BBB'' 2021))"
  have "map fst ?m1 = metric_keys \<and> map fst ?m2 = metric_keys"
    using get_annual_metrics_keys [OF ex_AAA_2021] get_annual_metrics_keys [OF ex_BBB_2021]
    by (simp add: ex_AAA_2021 ex_BBB_2021)
  with same_ticker_rows [of ?m1 ?m2 "''AAA''" 2021]
  have "combined_data ''AAA'' ''AAA'' 2021 ?m1 ?m2 =
          (''Year'', YearVal 2021) # map (prefix_item ''AAA'') ?m2"
    by blast
  also have "\<dots> =
     [(''Year'', YearVal 2021),
      (''AAA_ROE'', MetricVal (Some (PyFloat (Fin (1 / 10))))),
      (''AAA_ROA'', MetricVal (Some (PyFloat (Fin (1 / 25))))),
      (''AAA_Gross Profit Margin'', MetricVal (Some (PyFloat (Fin (2 / 5))))),
      (''AAA_Debt-to-Equity'', MetricVal (Some (PyFloat (Fin (3 / 2))))),
      (''AAA_P/E Ratio'', MetricVal (Some (PyFloat (Fin 30)))),
      (''AAA_EV/EBITDA'', MetricVal (Some (PyFloat (Fin 12)))),
      (''AAA_P/EBITDA'', MetricVal (Some (PyFloat (Fin 100)))),
      (''AAA_Earnings Yield'', MetricVal (Some (PyFloat (Fin (1 / 30))))),
      (''AAA_Revenue Growth'', MetricVal (Some (PyFloat (Fin (1 / 4))))),
      (''AAA_PEG Ratio'', MetricVal (Some (PyFloat (Fin 3))))]"
    by (simp add: ex_BBB_2021 prefix_item_def)
  finally show "combined_data ''AAA'' ''AAA'' 2021 ?m1 ?m2 =
     [(''Year'', YearVal 2021),
      (''AAA_ROE'', MetricVal (Some (PyFloat (Fin (1 / 10))))),
      (''AAA_ROA'', MetricVal (Some (PyFloat (Fin (1 / 25))))),
      (''AAA_Gross Profit Margin'', MetricVal (Some (PyFloat (Fin (2 / 5))))),
      (''AAA_Debt-to-Equity'', MetricVal (Some (PyFloat (Fin (3 / 2))))),
      (''AAA_P/E Ratio'', MetricVal (Some (PyFloat (Fin 30)))),
      (''AAA_EV/EBITDA'', MetricVal (Some (PyFloat (Fin 12)))),
      (''AAA_P/EBITDA'', MetricVal (Some (PyFloat (Fin 100)))),
      (''AAA_Earnings Yield'', MetricVal (Some (PyFloat (Fin (1 / 30))))),
      (''AAA_Revenue Growth'', MetricVal (Some (PyFloat (Fin (1 / 4))))),
      (''AAA_PEG Ratio'', MetricVal (Some (PyFloat (Fin 3))))]" .
next
  let ?row = "combined_data ''AAA'' ''AAA'' 2021
     (the (snd (get_annual_metrics ex_yf ''AAA'' 2021)))
     (the (snd (get_annual_metrics ex_yf ''AAA'' 2021)))"
  have t: "snd (compare_stocks_over_range ex_yf ''AAA'' ''AAA'' 2021 2021) = Some [?row]"
    by (simp add: compare_snd ex_available_AAA)
  with same_ticker_rows [where yf = ex_yf and t = "''AAA''" and s = 2021 and e = 2021
      and tbl = "[?row]" and row = ?row]
  have "length ?row = 11"
    by simp
  with t show "\<exists>row. snd (compare_stocks_over_range ex_yf ''AAA'' ''AAA'' 2021 2021) = Some [row] \<and>
      length row = 11"
    by blast
qed

end
